theory Spec2Isabelle
  imports Main "HOL-Library.AList" "HOL-Library.Sublist"
begin

section \<open>The Jupyter notebook MCP server (mcp-servers/jupyter-notebook-mcp/main.py)\<close>

text \<open>
  The server is the class \<^verbatim>\<open>JupyterMCPServer\<close> and the stdio loop \<^verbatim>\<open>main\<close>.
  Its only mutable field is the dictionary \<^verbatim>\<open>self.notebooks\<close>; besides that it acts on
  the file system (notebook files, exported files, temporary script files) and starts child
  processes. The model threads a \<open>world\<close> (session store and file contents) through every
  handler and takes what the outside world does during one request (the identifier drawn by
  \<^verbatim>\<open>uuid.uuid4\<close>, the temporary file name, the behaviour of the child process, whether
  \<^verbatim>\<open>open\<close> fails) as an explicit \<open>env\<close> argument.
\<close>

subsection \<open>Python strings\<close>

definition nl :: string where
  "nl = [CHR 0x0A]"

definition sq :: string where
  "sq = [CHR 0x27]"

text \<open>A block of text lines, each ended by a newline.\<close>

definition text_lines :: "string list \<Rightarrow> string" where
  "text_lines ls = concat (map (\<lambda>l. l @ nl) ls)"

definition digit_char :: "nat \<Rightarrow> char" where
  "digit_char d =
     (if d = 0 then CHR ''0'' else if d = 1 then CHR ''1'' else if d = 2 then CHR ''2''
      else if d = 3 then CHR ''3'' else if d = 4 then CHR ''4'' else if d = 5 then CHR ''5''
      else if d = 6 then CHR ''6'' else if d = 7 then CHR ''7'' else if d = 8 then CHR ''8''
      else CHR ''9'')"

text \<open>\<^verbatim>\<open>str(n)\<close> for a non-negative integer and for any integer.\<close>

fun str_nat :: "nat \<Rightarrow> string" where
  "str_nat n = (if n < 10 then [digit_char n] else str_nat (n div 10) @ [digit_char (n mod 10)])"

declare str_nat.simps [simp del]

definition str_int :: "int \<Rightarrow> string" where
  "str_int i = (if i < 0 then ''-'' @ str_nat (nat (- i)) else str_nat (nat i))"

text \<open>
  \<^verbatim>\<open>s.replace(old, new)\<close>: every non-overlapping occurrence of \<open>old\<close>, found from the
  left, is replaced. For the empty pattern Python puts \<open>new\<close> before every character and
  at the end.
\<close>

function replace_from :: "string \<Rightarrow> string \<Rightarrow> string \<Rightarrow> string" where
  "replace_from old new s =
     (if s = [] \<or> old = [] then s
      else if take (length old) s = old then new @ replace_from old new (drop (length old) s)
      else hd s # replace_from old new (tl s))"
  by pat_completeness auto
termination
  by (relation "measure (\<lambda>(old, new, s). length s)") auto

declare replace_from.simps [simp del]

definition str_replace :: "string \<Rightarrow> string \<Rightarrow> string \<Rightarrow> string" where
  "str_replace s old new =
     (if old = [] then new @ concat (map (\<lambda>c. c # new) s) else replace_from old new s)"

text \<open>\<^verbatim>\<open>os.path.join(a, b)\<close> of posixpath, for two components.\<close>

definition os_path_join :: "string \<Rightarrow> string \<Rightarrow> string" where
  "os_path_join a b =
     (if b \<noteq> [] \<and> hd b = CHR ''/'' then b
      else if a = [] \<or> last a = CHR ''/'' then a @ b
      else a @ ''/'' @ b)"

text \<open>\<^verbatim>\<open>enumerate(xs, 1)\<close>.\<close>

definition enumerate1 :: "'a list \<Rightarrow> (nat \<times> 'a) list" where
  "enumerate1 xs = zip [1 ..< Suc (length xs)] xs"

subsection \<open>Requests and responses\<close>

text \<open>
  A request line is decoded by \<^verbatim>\<open>json.loads\<close>. The decoded value is viewed at the types
  the handlers use: a request that is not a JSON object (its Python type is kept, for the
  \<^verbatim>\<open>AttributeError\<close> message), or an object with an optional \<^verbatim>\<open>method\<close> and
  \<^verbatim>\<open>params\<close>; \<^verbatim>\<open>params\<close> is again either not an object, or an object with an optional
  tool \<^verbatim>\<open>name\<close> and the \<^verbatim>\<open>arguments\<close> dictionary (empty when absent). Method, tool
  name and argument values are strings, the type every tool schema declares.
\<close>

datatype pytype = NoneType | PyBool | PyInt | PyFloat | PyStr | PyList

fun type_name :: "pytype \<Rightarrow> string" where
  "type_name NoneType = ''NoneType''"
| "type_name PyBool = ''bool''"
| "type_name PyInt = ''int''"
| "type_name PyFloat = ''float''"
| "type_name PyStr = ''str''"
| "type_name PyList = ''list''"

type_synonym arguments = "string \<rightharpoonup> string"

datatype params = ParamsNotDict pytype | Params "string option" arguments

datatype request = RequestNotDict pytype | Request "string option" params

text \<open>One entry of a tool's \<^verbatim>\<open>inputSchema.properties\<close>: name, type, description, enum.\<close>

datatype property = Property string string string "string list option"

text \<open>One tool: name, description, the schema's properties and its \<^verbatim>\<open>required\<close> list.\<close>

datatype tool = Tool string string "property list" "string list option"

text \<open>
  A response dictionary: \<^verbatim>\<open>{"tools": [...]}\<close>,
  \<^verbatim>\<open>{"content": [{"type": "text", "text": t}]}\<close> or \<^verbatim>\<open>{"error": msg}\<close>.
\<close>

datatype response = Tools "tool list" | Content string | Error string

text \<open>The exceptions that reach a \<^verbatim>\<open>try\<close> block of the server, and \<^verbatim>\<open>str(e)\<close>.\<close>

datatype py_exception = KeyError string | AttributeError pytype string | OSError string

fun str_exc :: "py_exception \<Rightarrow> string" where
  "str_exc (KeyError k) = sq @ k @ sq"
| "str_exc (AttributeError t a) =
     sq @ type_name t @ sq @ '' object has no attribute '' @ sq @ a @ sq"
| "str_exc (OSError m) = m"

text \<open>The f-string \<^verbatim>\<open>{x}\<close> of an optional string: \<^verbatim>\<open>None\<close> prints as \<^verbatim>\<open>None\<close>.\<close>

fun str_opt :: "string option \<Rightarrow> string" where
  "str_opt None = ''None''"
| "str_opt (Some s) = s"

datatype 'a outcome = Raise py_exception | Return 'a

subsection \<open>Session store, file system and environment\<close>

record cell =
  cell_code :: string
  cell_output :: string
  execution_count :: nat

record notebook =
  nb_name :: string
  nb_path :: string
  cells :: "cell list"

text \<open>
  \<^verbatim>\<open>self.notebooks\<close> is a dictionary; \<^verbatim>\<open>list_notebooks\<close> iterates it in insertion
  order, so it is an association list: \<open>map_of\<close> reads a key, \<open>AList.update\<close> stores
  one (in place when the key exists, at the end otherwise).
\<close>

record world =
  notebooks :: "(string \<times> notebook) list"
  files :: "string \<rightharpoonup> string"

text \<open>
  A child process as \<^verbatim>\<open>subprocess.run\<close> sees it. Either it cannot be started
  (\<open>launch_error\<close>, the text of the exception). Or it runs for some wall-clock time (in
  seconds, rounded up), does something to the files (\<open>fs_effect\<close> maps the files at its
  start to the files at the moment \<^verbatim>\<open>subprocess.run\<close> returns or gives up: a script can
  write files, or remove its own), and ends with its captured output and exit status. The
  output is captured with \<^verbatim>\<open>text=True\<close>: when it is no text in the expected encoding,
  \<^verbatim>\<open>subprocess.run\<close> raises \<^verbatim>\<open>UnicodeDecodeError\<close> after the child has ended
  (\<open>decode_error\<close>, the text of the exception).
\<close>

record proc =
  launch_error :: "string option"
  duration :: nat
  fs_effect :: "(string \<rightharpoonup> string) \<Rightarrow> (string \<rightharpoonup> string)"
  decode_error :: "string option"
  stdout :: string
  stderr :: string
  returncode :: int

datatype run_result =
  LaunchError string | TimeoutExpired | DecodeError string | CompletedProcess string string int

definition subprocess_run :: "nat \<Rightarrow> proc \<Rightarrow> run_result" where
  "subprocess_run timeout p =
     (case launch_error p of
        Some m \<Rightarrow> LaunchError m
      | None \<Rightarrow>
          if timeout < duration p then TimeoutExpired
          else (case decode_error p of
                  Some m \<Rightarrow> DecodeError m
                | None \<Rightarrow> CompletedProcess (stdout p) (stderr p) (returncode p)))"

text \<open>
  What the outside world does during one request: the identifier \<^verbatim>\<open>uuid.uuid4()\<close>
  returns, the result of \<^verbatim>\<open>tempfile.NamedTemporaryFile\<close> (the message of its
  \<^verbatim>\<open>OSError\<close>, or the name of the new file), the child the interpreter becomes for a
  script text, the child \<^verbatim>\<open>pip install\<close> becomes for a package, the error, if
  any, with which \<^verbatim>\<open>open(path, 'w')\<close> fails, and the error, if any, with which
  \<^verbatim>\<open>os.unlink\<close> fails on a file that exists.
\<close>

record env =
  uuid4 :: string
  tmpfile :: "string + string"
  python :: "string \<Rightarrow> proc"
  pip :: "string \<Rightarrow> proc"
  open_error :: "string option"
  unlink_error :: "string option"

text \<open>\<^verbatim>\<open>JupyterMCPServer()\<close>: an empty session store, over the files that exist.\<close>

definition new_server :: "(string \<rightharpoonup> string) \<Rightarrow> world" where
  "new_server fs = \<lparr>notebooks = [], files = fs\<rparr>"

subsection \<open>The tool registry: \<^verbatim>\<open>list_tools\<close>\<close>

definition tool_catalog :: "tool list" where
  "tool_catalog =
     [Tool ''create_notebook'' ''Create a new Jupyter notebook''
        [Property ''name'' ''string'' ''Notebook name'' None,
         Property ''path'' ''string'' ''Path to save notebook'' None]
        (Some [''name'']),
      Tool ''execute_cell'' ''Execute code in a notebook cell''
        [Property ''code'' ''string'' ''Python code to execute'' None,
         Property ''notebook_id'' ''string'' ''Notebook ID (optional)'' None]
        (Some [''code'']),
      Tool ''list_notebooks'' ''List all created notebooks'' [] None,
      Tool ''export_notebook'' ''Export notebook to various formats''
        [Property ''notebook_id'' ''string'' ''Notebook ID'' None,
         Property ''format'' ''string'' ''Export format'' (Some [''html'', ''pdf'', ''py''])]
        (Some [''notebook_id'', ''format'']),
      Tool ''install_package'' ''Install Python package for notebook use''
        [Property ''package'' ''string'' ''Package name to install'' None]
        (Some [''package'']),
      Tool ''create_visualization'' ''Create data visualization using matplotlib/seaborn''
        [Property ''data'' ''string'' ''Data or data generation code'' None,
         Property ''chart_type'' ''string'' ''Chart type''
           (Some [''line'', ''bar'', ''scatter'', ''histogram'', ''heatmap'']),
         Property ''title'' ''string'' ''Chart title'' None]
        (Some [''data'', ''chart_type''])]"

definition list_tools :: response where
  "list_tools = Tools tool_catalog"

fun tool_name :: "tool \<Rightarrow> string" where
  "tool_name (Tool n d ps r) = n"

fun tool_properties :: "tool \<Rightarrow> property list" where
  "tool_properties (Tool n d ps r) = ps"

text \<open>
  The \<^verbatim>\<open>enum\<close> the catalog declares for a property of a tool, both found by name.
\<close>

fun property_name :: "property \<Rightarrow> string" where
  "property_name (Property n t d en) = n"

fun property_enum :: "property \<Rightarrow> string list option" where
  "property_enum (Property n t d en) = en"

definition declared_enum :: "string \<Rightarrow> string \<Rightarrow> string list option" where
  "declared_enum tn pn =
     (case find (\<lambda>t. tool_name t = tn) tool_catalog of
        None \<Rightarrow> None
      | Some t \<Rightarrow>
          (case find (\<lambda>p. property_name p = pn) (tool_properties t) of
             None \<Rightarrow> None
           | Some p \<Rightarrow> property_enum p))"

subsection \<open>\<^verbatim>\<open>create_notebook\<close>\<close>

text \<open>The text \<^verbatim>\<open>json.dump(notebook_content, f, indent=2)\<close> writes.\<close>

definition notebook_json :: string where
  \<open>notebook_json =
     text_lines
       [''{'',
        ''  "cells": [],'',
        ''  "metadata": {'',
        ''    "kernelspec": {'',
        ''      "display_name": "Python 3",'',
        ''      "language": "python",'',
        ''      "name": "python3"'',
        ''    },'',
        ''    "language_info": {'',
        ''      "name": "python",'',
        ''      "version": "3.8.0"'',
        ''    }'',
        ''  },'',
        ''  "nbformat": 4,'',
        ''  "nbformat_minor": 4'']
     @ ''}''\<close>

definition create_notebook :: "env \<Rightarrow> arguments \<Rightarrow> world \<Rightarrow> response outcome \<times> world" where
  "create_notebook e args w =
     (case args ''name'' of
        None \<Rightarrow> (Raise (KeyError ''name''), w)
      | Some name \<Rightarrow>
          let path = (case args ''path'' of None \<Rightarrow> ''/tmp'' | Some p \<Rightarrow> p);
              notebook_id = uuid4 e;
              notebook_path = os_path_join path (name @ ''.ipynb'')
          in (case open_error e of
                Some m \<Rightarrow> (Return (Error (''Failed to create notebook: '' @ m)), w)
              | None \<Rightarrow>
                  (Return (Content (''Notebook '' @ sq @ name @ sq @ '' created successfully!'' @ nl
                                    @ ''ID: '' @ notebook_id @ nl @ ''Path: '' @ notebook_path)),
                   w\<lparr>notebooks :=
                       AList.update notebook_id
                         \<lparr>nb_name = name, nb_path = notebook_path, cells = []\<rparr> (notebooks w),
                     files := (files w)(notebook_path \<mapsto> notebook_json)\<rparr>)))"

subsection \<open>\<^verbatim>\<open>execute_cell\<close>\<close>

text \<open>The output text composed from the finished child process.\<close>

definition compose_output :: "string \<Rightarrow> string \<Rightarrow> int \<Rightarrow> string" where
  "compose_output out err rc =
     (let output =
            (if out \<noteq> [] then ''Output:'' @ nl @ out @ nl else [])
          @ (if err \<noteq> [] then ''Errors:'' @ nl @ err @ nl else [])
          @ (if rc \<noteq> 0 then ''Exit code: '' @ str_int rc @ nl else [])
      in if output = [] then ''Code executed successfully (no output)'' else output)"

definition execution_text :: "string \<Rightarrow> string \<Rightarrow> string" where
  "execution_text src output =
     ''# Code Execution Result'' @ nl @ nl @ ''```python'' @ nl @ src @ nl @ ''```'' @ nl @ nl
     @ output"

text \<open>
  \<^verbatim>\<open>if notebook_id and notebook_id in self.notebooks: ...cells.append(...)\<close>. The cell
  list of the stored record is extended in place.
\<close>

definition append_cell :: "string option \<Rightarrow> string \<Rightarrow> string \<Rightarrow> world \<Rightarrow> world" where
  "append_cell notebook_id src output w =
     (case notebook_id of
        None \<Rightarrow> w
      | Some nid \<Rightarrow>
          if nid = [] then w
          else (case map_of (notebooks w) nid of
                  None \<Rightarrow> w
                | Some nb \<Rightarrow>
                    w\<lparr>notebooks :=
                        AList.update nid
                          (nb\<lparr>cells := cells nb
                                @ [\<lparr>cell_code = src, cell_output = output,
                                    execution_count = length (cells nb) + 1\<rparr>]\<rparr>)
                          (notebooks w)\<rparr>))"

text \<open>
  \<^verbatim>\<open>os.unlink(path)\<close>: \<^verbatim>\<open>FileNotFoundError\<close> when the file is not there, the error of
  the environment if it has one, and otherwise the file is removed.
\<close>

definition os_unlink :: "env \<Rightarrow> string \<Rightarrow> (string \<rightharpoonup> string) \<Rightarrow> string + (string \<rightharpoonup> string)" where
  "os_unlink e path fs =
     (if fs path = None then
        Inl (''[Errno 2] No such file or directory: '' @ sq @ path @ sq)
      else (case unlink_error e of
              Some m \<Rightarrow> Inl m
            | None \<Rightarrow> Inr (fs(path := None))))"

text \<open>
  The temporary file is created with \<^verbatim>\<open>delete=False\<close> and holds the code text when the
  \<^verbatim>\<open>with\<close> block closes it. \<^verbatim>\<open>os.unlink\<close> is the statement after
  \<^verbatim>\<open>subprocess.run\<close>: it is reached only when \<^verbatim>\<open>subprocess.run\<close> returns. A launch
  failure, a timeout and a decoding error leave the \<^verbatim>\<open>try\<close> block at
  \<^verbatim>\<open>subprocess.run\<close>; only the launch failure leaves the files as they were when the
  child was to start. \<^verbatim>\<open>os.unlink\<close> itself can raise, for one when the script has removed
  its own file: that is an \<^verbatim>\<open>Exception\<close> too, answered by the last \<^verbatim>\<open>except\<close>, and
  nothing is appended.
\<close>

definition execute_cell :: "env \<Rightarrow> arguments \<Rightarrow> world \<Rightarrow> response outcome \<times> world" where
  "execute_cell e args w =
     (case args ''code'' of
        None \<Rightarrow> (Raise (KeyError ''code''), w)
      | Some src \<Rightarrow>
          let notebook_id = args ''notebook_id'' in
          (case tmpfile e of
             Inl m \<Rightarrow> (Return (Error (''Execution failed: '' @ m)), w)
           | Inr temp_file_path \<Rightarrow>
               let w1 = w\<lparr>files := (files w)(temp_file_path \<mapsto> src)\<rparr>;
                   w2 = w1\<lparr>files := fs_effect (python e src) (files w1)\<rparr>
               in
               (case subprocess_run 30 (python e src) of
                  LaunchError m \<Rightarrow> (Return (Error (''Execution failed: '' @ m)), w1)
                | TimeoutExpired \<Rightarrow>
                    (Return (Error ''Code execution timed out (30s limit)''), w2)
                | DecodeError m \<Rightarrow> (Return (Error (''Execution failed: '' @ m)), w2)
                | CompletedProcess out err rc \<Rightarrow>
                    (case os_unlink e temp_file_path (files w2) of
                       Inl m \<Rightarrow> (Return (Error (''Execution failed: '' @ m)), w2)
                     | Inr fs \<Rightarrow>
                         let output = compose_output out err rc
                         in (Return (Content (execution_text src output)),
                             append_cell notebook_id src output (w2\<lparr>files := fs\<rparr>))))))"

subsection \<open>\<^verbatim>\<open>list_notebooks\<close>\<close>

definition notebook_entry :: "string \<times> notebook \<Rightarrow> string" where
  "notebook_entry = (\<lambda>(notebook_id, nb).
       ''**'' @ nb_name nb @ ''**'' @ nl
     @ ''- ID: '' @ notebook_id @ nl
     @ ''- Path: '' @ nb_path nb @ nl
     @ ''- Cells: '' @ str_nat (length (cells nb)) @ nl @ nl)"

definition list_notebooks :: "world \<Rightarrow> response" where
  "list_notebooks w =
     (if notebooks w = [] then
        Content ''No notebooks created yet. Use create_notebook to start.''
      else Content (''# Jupyter Notebooks'' @ nl @ nl @ concat (map notebook_entry (notebooks w))))"

subsection \<open>\<^verbatim>\<open>export_notebook\<close>\<close>

definition py_cell :: "nat \<times> cell \<Rightarrow> string" where
  "py_cell = (\<lambda>(i, c). ''# Cell '' @ str_nat i @ nl @ cell_code c @ nl @ nl)"

definition py_content :: "notebook \<Rightarrow> string" where
  "py_content nb =
     ''# '' @ nb_name nb @ nl @ ''# Exported from Jupyter notebook'' @ nl @ nl
     @ concat (map py_cell (enumerate1 (cells nb)))"

definition html_head :: "string \<Rightarrow> string" where
  \<open>html_head name =
     text_lines
       ['''',
        ''<!DOCTYPE html>'',
        ''<html>'',
        ''<head>'',
        ''    <title>'' @ name @ ''</title>'',
        ''    <style>'',
        ''        .cell { margin: 20px 0; padding: 10px; border: 1px solid #ddd; }'',
        ''        .code { background: #f5f5f5; padding: 10px; font-family: monospace; }'',
        ''        .output { background: #fff; padding: 10px; }'',
        ''    </style>'',
        ''</head>'',
        ''<body>'',
        ''    <h1>'' @ name @ ''</h1>'']\<close>

definition html_cell :: "nat \<times> cell \<Rightarrow> string" where
  \<open>html_cell = (\<lambda>(i, c).
     text_lines
       ['''',
        ''    <div class="cell">'',
        ''        <h3>Cell '' @ str_nat i @ ''</h3>'',
        ''        <div class="code"><pre>'' @ cell_code c @ ''</pre></div>'',
        ''        <div class="output"><pre>'' @ cell_output c @ ''</pre></div>'',
        ''    </div>''])\<close>

definition html_content :: "notebook \<Rightarrow> string" where
  "html_content nb =
     html_head (nb_name nb) @ concat (map html_cell (enumerate1 (cells nb))) @ ''</body></html>''"

text \<open>\<^verbatim>\<open>with open(path, 'w') as f: f.write(text)\<close> inside the handler's \<^verbatim>\<open>try\<close>.\<close>

definition write_export ::
  "env \<Rightarrow> string \<Rightarrow> string \<Rightarrow> string \<Rightarrow> world \<Rightarrow> response outcome \<times> world" where
  "write_export e path text msg w =
     (case open_error e of
        Some m \<Rightarrow> (Return (Error (''Export failed: '' @ m)), w)
      | None \<Rightarrow> (Return (Content (msg @ path)), w\<lparr>files := (files w)(path \<mapsto> text)\<rparr>))"

definition export_notebook :: "env \<Rightarrow> arguments \<Rightarrow> world \<Rightarrow> response outcome \<times> world" where
  "export_notebook e args w =
     (case args ''notebook_id'' of
        None \<Rightarrow> (Raise (KeyError ''notebook_id''), w)
      | Some notebook_id \<Rightarrow>
          (case args ''format'' of
             None \<Rightarrow> (Raise (KeyError ''format''), w)
           | Some format_type \<Rightarrow>
               (case map_of (notebooks w) notebook_id of
                  None \<Rightarrow> (Return (Error (''Notebook '' @ notebook_id @ '' not found'')), w)
                | Some nb \<Rightarrow>
                    if format_type = ''py'' then
                      write_export e (str_replace (nb_path nb) ''.ipynb'' ''.py'') (py_content nb)
                        ''Notebook exported to Python script: '' w
                    else if format_type = ''html'' then
                      write_export e (str_replace (nb_path nb) ''.ipynb'' ''.html'')
                        (html_content nb) ''Notebook exported to HTML: '' w
                    else
                      (Return (Error (''Export format '' @ sq @ format_type @ sq
                                      @ '' not supported'')), w))))"

subsection \<open>\<^verbatim>\<open>install_package\<close>\<close>

definition install_package :: "env \<Rightarrow> arguments \<Rightarrow> world \<Rightarrow> response outcome \<times> world" where
  "install_package e args w =
     (case args ''package'' of
        None \<Rightarrow> (Raise (KeyError ''package''), w)
      | Some package \<Rightarrow>
          let w1 = w\<lparr>files := fs_effect (pip e package) (files w)\<rparr> in
          (case subprocess_run 60 (pip e package) of
             LaunchError m \<Rightarrow> (Return (Error (''Installation failed: '' @ m)), w)
           | TimeoutExpired \<Rightarrow> (Return (Error ''Package installation timed out''), w1)
           | DecodeError m \<Rightarrow> (Return (Error (''Installation failed: '' @ m)), w1)
           | CompletedProcess out err rc \<Rightarrow>
               if rc = 0 then
                 (Return (Content (''Package '' @ sq @ package @ sq @ '' installed successfully!''
                                   @ nl @ nl @ ''Output:'' @ nl @ out)), w1)
               else (Return (Error (''Failed to install '' @ package @ '': '' @ err)), w1)))"

subsection \<open>\<^verbatim>\<open>create_visualization\<close>\<close>

text \<open>
  The plotting templates are Python source full of single quotes. They are written here
  with a backquote in place of each single quote; \<open>py_quotes\<close> puts the single quotes
  back. No template contains a backquote of its own.
\<close>

definition py_quotes :: "string \<Rightarrow> string" where
  "py_quotes s = map (\<lambda>c. if c = CHR ''`'' then CHR 0x27 else c) s"

definition viz_head :: "string \<Rightarrow> string \<Rightarrow> string" where
  "viz_head data title =
     text_lines
       ['''',
        ''import matplotlib.pyplot as plt'',
        ''import numpy as np'',
        ''import pandas as pd'',
        '''',
        ''# Data preparation'',
        data,
        '''',
        ''# Create visualization'',
        ''plt.figure(figsize=(10, 6))'',
        ''plt.title('' @ sq @ title @ sq @ '')'',
        '''']"

definition viz_chart :: "string \<Rightarrow> string" where
  "viz_chart chart_type =
     (if chart_type = ''line'' then
        text_lines (map py_quotes
          ['''',
           ''if `x` in locals() and `y` in locals():'',
           ''    plt.plot(x, y)'',
           ''    plt.xlabel(`X`)'',
           ''    plt.ylabel(`Y`)'',
           ''else:'',
           ''    # Sample data'',
           ''    x = np.linspace(0, 10, 100)'',
           ''    y = np.sin(x)'',
           ''    plt.plot(x, y, label=`sin(x)`)'',
           ''    plt.xlabel(`X`)'',
           ''    plt.ylabel(`Y`)'',
           ''    plt.legend()''])
      else if chart_type = ''bar'' then
        text_lines (map py_quotes
          ['''',
           ''if `categories` in locals() and `values` in locals():'',
           ''    plt.bar(categories, values)'',
           ''else:'',
           ''    # Sample data'',
           ''    categories = [`A`, `B`, `C`, `D`]'',
           ''    values = [23, 45, 56, 78]'',
           ''    plt.bar(categories, values)'',
           ''plt.xlabel(`Categories`)'',
           ''plt.ylabel(`Values`)''])
      else if chart_type = ''scatter'' then
        text_lines (map py_quotes
          ['''',
           ''if `x` in locals() and `y` in locals():'',
           ''    plt.scatter(x, y)'',
           ''else:'',
           ''    # Sample data'',
           ''    x = np.random.randn(100)'',
           ''    y = np.random.randn(100)'',
           ''    plt.scatter(x, y, alpha=0.6)'',
           ''plt.xlabel(`X`)'',
           ''plt.ylabel(`Y`)''])
      else if chart_type = ''histogram'' then
        text_lines (map py_quotes
          ['''',
           ''if `data` in locals():'',
           ''    plt.hist(data, bins=20, alpha=0.7)'',
           ''else:'',
           ''    # Sample data'',
           ''    data = np.random.normal(0, 1, 1000)'',
           ''    plt.hist(data, bins=30, alpha=0.7, edgecolor=`black`)'',
           ''plt.xlabel(`Value`)'',
           ''plt.ylabel(`Frequency`)''])
      else if chart_type = ''heatmap'' then
        text_lines (map py_quotes
          ['''',
           ''import seaborn as sns'',
           ''if `matrix` in locals():'',
           ''    sns.heatmap(matrix, annot=True, cmap=`viridis`)'',
           ''else:'',
           ''    # Sample data'',
           ''    matrix = np.random.rand(10, 10)'',
           ''    sns.heatmap(matrix, annot=True, cmap=`viridis`)''])
      else [])"

definition viz_tail :: string where
  \<open>viz_tail =
     text_lines (map py_quotes
       ['''',
        ''plt.tight_layout()'',
        ''plt.savefig(`/tmp/visualization.png`, dpi=300, bbox_inches=`tight`)'',
        ''plt.show()'',
        ''print("Visualization saved to /tmp/visualization.png")''])\<close>

definition create_visualization ::
  "env \<Rightarrow> arguments \<Rightarrow> world \<Rightarrow> response outcome \<times> world" where
  "create_visualization e args w =
     (case args ''data'' of
        None \<Rightarrow> (Raise (KeyError ''data''), w)
      | Some data \<Rightarrow>
          (case args ''chart_type'' of
             None \<Rightarrow> (Raise (KeyError ''chart_type''), w)
           | Some chart_type \<Rightarrow>
               let title = (case args ''title'' of None \<Rightarrow> ''Data Visualization'' | Some t \<Rightarrow> t);
                   viz_code = viz_head data title @ viz_chart chart_type @ viz_tail
               in execute_cell e [''code'' \<mapsto> viz_code] w))"

subsection \<open>Dispatch: \<^verbatim>\<open>call_tool\<close>, \<^verbatim>\<open>handle_request\<close> and the loop of \<^verbatim>\<open>main\<close>\<close>

text \<open>\<^verbatim>\<open>try: ... except Exception as e: return {"error": str(e)}\<close>.\<close>

fun catch_all :: "response outcome \<times> world \<Rightarrow> response \<times> world" where
  "catch_all (Raise ex, w) = (Error (str_exc ex), w)"
| "catch_all (Return r, w) = (r, w)"

definition dispatch_tool ::
  "env \<Rightarrow> string option \<Rightarrow> arguments \<Rightarrow> world \<Rightarrow> response outcome \<times> world" where
  "dispatch_tool e tn args w =
     (if tn = Some ''create_notebook'' then create_notebook e args w
      else if tn = Some ''execute_cell'' then execute_cell e args w
      else if tn = Some ''list_notebooks'' then (Return (list_notebooks w), w)
      else if tn = Some ''export_notebook'' then export_notebook e args w
      else if tn = Some ''install_package'' then install_package e args w
      else if tn = Some ''create_visualization'' then create_visualization e args w
      else (Return (Error (''Unknown tool: '' @ str_opt tn)), w))"

text \<open>
  \<^verbatim>\<open>params.get\<close> is called before the \<^verbatim>\<open>try\<close> of \<^verbatim>\<open>call_tool\<close>: on a
  \<^verbatim>\<open>params\<close> that is no dictionary the \<^verbatim>\<open>AttributeError\<close> leaves \<^verbatim>\<open>call_tool\<close>.
\<close>

fun call_tool :: "env \<Rightarrow> params \<Rightarrow> world \<Rightarrow> response outcome \<times> world" where
  "call_tool e (ParamsNotDict t) w = (Raise (AttributeError t ''get''), w)"
| "call_tool e (Params tn args) w =
     (let (r, w') = catch_all (dispatch_tool e tn args w) in (Return r, w'))"

fun handle_request :: "env \<Rightarrow> request \<Rightarrow> world \<Rightarrow> response \<times> world" where
  "handle_request e (RequestNotDict t) w = catch_all (Raise (AttributeError t ''get''), w)"
| "handle_request e (Request method ps) w =
     (if method = Some ''tools/list'' then (list_tools, w)
      else if method = Some ''tools/call'' then catch_all (call_tool e ps w)
      else (Error (''Unknown method: '' @ str_opt method), w))"

text \<open>
  What \<^verbatim>\<open>json.loads(line)\<close> does: it raises \<^verbatim>\<open>json.JSONDecodeError\<close>, it raises
  another exception (\<^verbatim>\<open>RecursionError\<close> on brackets nested too deep, \<^verbatim>\<open>ValueError\<close> on
  an integer of too many digits; the text of the exception is kept), or it returns the
  decoded value, seen as a \<open>request\<close>.
\<close>

datatype decoded = JSONDecodeError | OtherError string | Decoded request

text \<open>
  The loop of \<^verbatim>\<open>main\<close>. Each element of the input is one line \<^verbatim>\<open>input()\<close> returns,
  with what the outside world does while the line is handled; the end of the list is
  \<^verbatim>\<open>EOFError\<close>. \<open>loads\<close> is \<^verbatim>\<open>json.loads\<close>. The three \<^verbatim>\<open>except\<close> branches of the
  loop are the end of the input, \<^verbatim>\<open>JSONDecodeError\<close> and every other exception;
  \<^verbatim>\<open>handle_request\<close> catches its own exceptions, so the last branch is taken for what
  \<^verbatim>\<open>json.loads\<close> raises besides \<^verbatim>\<open>JSONDecodeError\<close>. The result is the list of
  printed responses and the final world.
\<close>

fun main_loop ::
  "(string \<Rightarrow> decoded) \<Rightarrow> (string \<times> env) list \<Rightarrow> world \<Rightarrow> response list \<times> world" where
  "main_loop loads [] w = ([], w)"
| "main_loop loads ((line, e) # rest) w =
     (if line = [] then ([], w)
      else (case loads line of
              JSONDecodeError \<Rightarrow>
                (let (rs, w') = main_loop loads rest w in (Error ''Invalid JSON'' # rs, w'))
            | OtherError m \<Rightarrow>
                (let (rs, w') = main_loop loads rest w in (Error m # rs, w'))
            | Decoded request \<Rightarrow>
                (let (response, w1) = handle_request e request w;
                     (rs, w') = main_loop loads rest w1
                 in (response # rs, w'))))"

definition main ::
  "(string \<Rightarrow> decoded) \<Rightarrow> (string \<rightharpoonup> string) \<Rightarrow> (string \<times> env) list
     \<Rightarrow> response list \<times> world" where
  "main loads fs inputs = main_loop loads inputs (new_server fs)"

subsection \<open>Sequences of calls and the outcome of one execution\<close>

text \<open>A success response: \<^verbatim>\<open>{"content": [...]}\<close>, returned and not raised.\<close>

fun is_success :: "response outcome \<Rightarrow> bool" where
  "is_success (Return (Content t)) = True"
| "is_success r = False"


text \<open>
  Successive \<^verbatim>\<open>execute_cell\<close> calls, with the responses they return, and successive
  \<^verbatim>\<open>create_notebook\<close> calls.
\<close>

fun execute_cells ::
  "(env \<times> arguments) list \<Rightarrow> world \<Rightarrow> response outcome list \<times> world" where
  "execute_cells [] w = ([], w)"
| "execute_cells ((e, args) # calls) w =
     (let (r, w1) = execute_cell e args w;
          (rs, w') = execute_cells calls w1
      in (r # rs, w'))"



text \<open>The cells of a notebook are numbered 1, 2, 3, ... in their order.\<close>

definition numbered :: "cell list \<Rightarrow> bool" where
  "numbered cs = (map execution_count cs = [1 ..< Suc (length cs)])"

subsection \<open>An example session\<close>

text \<open>
  A child that prints \<^verbatim>\<open>1\<close> after one second, a child that is still running after 61
  seconds, neither touching a file, and a child that removes the temporary script and ends
  at once; an environment in which the script \<^verbatim>\<open>import time; time.sleep(61)\<close> and the
  package \<^verbatim>\<open>tensorflow\<close> take the slow child, the script
  \<^verbatim>\<open>import os; os.remove(__file__)\<close> the third one, and everything else the quick one.
\<close>

definition quick :: proc where
  "quick = \<lparr>launch_error = None, duration = 1, fs_effect = (\<lambda>fs. fs), decode_error = None,
             stdout = ''1'' @ nl, stderr = [], returncode = 0\<rparr>"

definition slow :: proc where
  "slow = \<lparr>launch_error = None, duration = 61, fs_effect = (\<lambda>fs. fs), decode_error = None,
            stdout = [], stderr = [], returncode = 0\<rparr>"

definition selfdel :: proc where
  "selfdel = \<lparr>launch_error = None, duration = 1,
               fs_effect = (\<lambda>fs. fs(''/tmp/tmpk3x9q2.py'' := None)), decode_error = None,
               stdout = [], stderr = [], returncode = 0\<rparr>"

definition demo_env :: env where
  "demo_env =
     \<lparr>uuid4 = ''3f2b8c1e-5d47-4a9e-b6a0-9c1d2e3f4a5b'',
      tmpfile = Inr ''/tmp/tmpk3x9q2.py'',
      python = (\<lambda>src. if src = ''import time; time.sleep(61)'' then slow
                     else if src = ''import os; os.remove(__file__)'' then selfdel
                     else quick),
      pip = (\<lambda>package. if package = ''tensorflow'' then slow else quick),
      open_error = None,
      unlink_error = None\<rparr>"

definition demo_id :: string where
  "demo_id = ''3f2b8c1e-5d47-4a9e-b6a0-9c1d2e3f4a5b''"

definition demo_world :: world where
  "demo_world = snd (create_notebook demo_env [''name'' \<mapsto> ''demo''] (new_server Map.empty))"

text \<open>
  A decoder for the lines of the examples: the \<^verbatim>\<open>tools/list\<close> request, the number
  \<^verbatim>\<open>7\<close> (valid JSON, no object), a line of 1200 opening brackets (on which
  \<^verbatim>\<open>json.loads\<close> raises \<^verbatim>\<open>RecursionError\<close>), and \<^verbatim>\<open>JSONDecodeError\<close> on every
  other line, the empty one among them.
\<close>

definition deep_line :: string where
  "deep_line = replicate 1200 (CHR ''['')"

definition demo_loads :: "string \<Rightarrow> decoded" where
  \<open>demo_loads line =
     (if line = ''{"method": "tools/list"}'' then
        Decoded (Request (Some ''tools/list'') (Params None Map.empty))
      else if line = ''7'' then Decoded (RequestNotDict PyInt)
      else if line = deep_line then
        OtherError ''maximum recursion depth exceeded while decoding a JSON array from a unicode string''
      else JSONDecodeError)\<close>

text \<open>
  Four \<^verbatim>\<open>execute_cell\<close> calls on the example notebook, the second one timing out and
  the third one removing its own script; three
  \<^verbatim>\<open>create_notebook\<close> calls, the third one failing to open its file; two
  \<^verbatim>\<open>create_notebook\<close> calls with different names for which \<^verbatim>\<open>uuid4\<close> returns the same
  identifier.
\<close>

definition demo_calls :: "(env \<times> arguments) list" where
  "demo_calls =
     [(demo_env, [''code'' \<mapsto> ''print(1)'', ''notebook_id'' \<mapsto> demo_id]),
      (demo_env, [''code'' \<mapsto> ''import time; time.sleep(61)'', ''notebook_id'' \<mapsto> demo_id]),
      (demo_env, [''code'' \<mapsto> ''import os; os.remove(__file__)'', ''notebook_id'' \<mapsto> demo_id]),
      (demo_env, [''code'' \<mapsto> ''print(2)'', ''notebook_id'' \<mapsto> demo_id])]"



text \<open>
  A notebook created under a name that already carries the extension, with one executed
  cell.
\<close>

definition report_env :: env where
  "report_env = demo_env\<lparr>uuid4 := ''0e4f2a6c-91b3-4d58-8c7a-5b2e9f01d3a4''\<rparr>"

definition report_id :: string where
  "report_id = ''0e4f2a6c-91b3-4d58-8c7a-5b2e9f01d3a4''"

definition report_world :: world where
  "report_world =
     snd (execute_cell report_env [''code'' \<mapsto> ''print(1)'', ''notebook_id'' \<mapsto> report_id]
       (snd (create_notebook report_env [''name'' \<mapsto> ''report.ipynb''] (new_server Map.empty))))"

section \<open>Properties\<close>

subsection \<open>How each handler changes the session store\<close>

lemma map_of_Some_key: "map_of xs k = Some v \<Longrightarrow> k \<in> fst ` set xs"
  by (metis map_of_eq_None_iff option.distinct(1))

lemma append_cell_files [simp]: "files (append_cell i s out w) = files w"
  by (simp add: append_cell_def split: option.splits)

lemma append_cell_keys [simp]:
  "fst ` set (notebooks (append_cell i s out w)) = fst ` set (notebooks w)"
  by (auto simp: append_cell_def dom_update dest: map_of_Some_key split: option.splits)

lemma append_cell_lookup:
  "map_of (notebooks (append_cell i s out w)) k =
     (case i of
        None \<Rightarrow> map_of (notebooks w) k
      | Some nid \<Rightarrow>
          if nid \<noteq> [] \<and> k = nid then
            (case map_of (notebooks w) nid of
               None \<Rightarrow> None
             | Some nb \<Rightarrow>
                 Some (nb\<lparr>cells := cells nb
                          @ [\<lparr>cell_code = s, cell_output = out,
                              execution_count = length (cells nb) + 1\<rparr>]\<rparr>))
          else map_of (notebooks w) k)"
  by (simp add: append_cell_def update_conv' split: option.splits)


text \<open>
  The two ways an \<^verbatim>\<open>execute_cell\<close> call ends: with the success response, the cell
  appended where the identifier resolves; or with anything else, the session store
  untouched.
\<close>

lemma execute_cell_success:
  assumes "is_success (fst (execute_cell e args w))"
  shows "\<exists>src out fs. args ''code'' = Some src
           \<and> execute_cell e args w =
               (Return (Content (execution_text src out)),
                append_cell (args ''notebook_id'') src out (w\<lparr>files := fs\<rparr>))"
  using assms
  by (auto simp: execute_cell_def Let_def
           split: option.splits sum.splits run_result.splits)

lemma execute_cell_failure:
  assumes "\<not> is_success (fst (execute_cell e args w))"
  shows "notebooks (snd (execute_cell e args w)) = notebooks w"
  using assms
  by (auto simp: execute_cell_def Let_def
           split: option.splits sum.splits run_result.splits)

lemma execute_cell_keeps:
  assumes "map_of (notebooks w) i = Some n"
  shows "\<exists>n'. map_of (notebooks (snd (execute_cell e args w))) i = Some n'
           \<and> prefix (cells n) (cells n') \<and> nb_name n' = nb_name n \<and> nb_path n' = nb_path n"
proof (cases "is_success (fst (execute_cell e args w))")
  case True
  from execute_cell_success [OF True] assms show ?thesis
    by (auto simp: append_cell_lookup split: option.splits)
next
  case False
  with assms show ?thesis by (simp add: execute_cell_failure)
qed


lemma execute_cell_without_id:
  "args ''notebook_id'' = None \<Longrightarrow> notebooks (snd (execute_cell e args w)) = notebooks w"
  by (auto simp: execute_cell_def append_cell_def Let_def
           split: option.splits sum.splits run_result.splits)

lemma create_notebook_keeps:
  assumes "map_of (notebooks w) i = Some n" and "uuid4 e \<noteq> i"
  shows "map_of (notebooks (snd (create_notebook e args w))) i = Some n"
  using assms
  by (auto simp: create_notebook_def Let_def update_conv' split: option.splits)

lemma export_notebook_notebooks [simp]:
  "notebooks (snd (export_notebook e args w)) = notebooks w"
  by (simp add: export_notebook_def write_export_def split: option.splits)

lemma install_package_notebooks [simp]:
  "notebooks (snd (install_package e args w)) = notebooks w"
  by (simp add: install_package_def Let_def split: option.splits run_result.splits)

lemma create_visualization_notebooks [simp]:
  "notebooks (snd (create_visualization e args w)) = notebooks w"
  by (simp add: create_visualization_def Let_def execute_cell_without_id split: option.splits)

lemma dispatch_tool_keeps:
  assumes "map_of (notebooks w) i = Some n" and "uuid4 e \<noteq> i"
  shows "\<exists>n'. map_of (notebooks (snd (dispatch_tool e tn args w))) i = Some n'
           \<and> prefix (cells n) (cells n') \<and> nb_name n' = nb_name n \<and> nb_path n' = nb_path n"
  using assms execute_cell_keeps [OF assms(1), of e args]
  by (simp add: dispatch_tool_def create_notebook_keeps)

lemma snd_catch_all [simp]: "snd (catch_all x) = snd x"
  by (cases x rule: catch_all.cases) simp_all

lemma snd_call_tool:
  "snd (call_tool e ps w) =
     (case ps of ParamsNotDict t \<Rightarrow> w | Params tn args \<Rightarrow> snd (dispatch_tool e tn args w))"
  by (cases ps) (simp_all add: split_beta)

lemma snd_handle_request:
  "snd (handle_request e r w) =
     (case r of
        Request (Some m) (Params tn args) \<Rightarrow>
          if m = ''tools/call'' then snd (dispatch_tool e tn args w) else w
      | _ \<Rightarrow> w)"
  by (cases r) (auto simp: snd_call_tool split: params.splits option.splits)

lemma handle_request_keeps:
  assumes "map_of (notebooks w) i = Some n" and "uuid4 e \<noteq> i"
  shows "\<exists>n'. map_of (notebooks (snd (handle_request e r w))) i = Some n'
           \<and> prefix (cells n) (cells n') \<and> nb_name n' = nb_name n \<and> nb_path n' = nb_path n"
  using assms dispatch_tool_keeps [OF assms]
  by (simp add: snd_handle_request split: request.splits option.splits params.splits)

lemma demo_world_eq:
  "demo_world = \<lparr>notebooks = [(demo_id, \<lparr>nb_name = ''demo'', nb_path = ''/tmp/demo.ipynb'', cells = []\<rparr>)],
                 files = [''/tmp/demo.ipynb'' \<mapsto> notebook_json]\<rparr>"
  by (simp add: demo_world_def create_notebook_def demo_env_def demo_id_def new_server_def os_path_join_def Let_def)


subsection \<open>The claims on single requests\<close>

text \<open>
  C7. \<^verbatim>\<open>tools/list\<close> is idempotent and free of side effects: in every server state and
  whatever \<^verbatim>\<open>params\<close> it carries, the request returns the static catalog of six tools
  and leaves the world (session store and files) as it was, so a second call returns the
  same catalog again.
\<close>

theorem tools_list_idempotent:
  "handle_request e (Request (Some ''tools/list'') ps) w = (Tools tool_catalog, w)
   \<and> handle_request e' (Request (Some ''tools/list'') ps')
         (snd (handle_request e (Request (Some ''tools/list'') ps) w)) = (Tools tool_catalog, w)
   \<and> map tool_name tool_catalog =
       [''create_notebook'', ''execute_cell'', ''list_notebooks'', ''export_notebook'',
        ''install_package'', ''create_visualization'']"
  by (simp add: list_tools_def tool_catalog_def)

text \<open>
  C10. The schema of \<^verbatim>\<open>export_notebook\<close> declares the formats \<^verbatim>\<open>html\<close>, \<^verbatim>\<open>pdf\<close> and
  \<^verbatim>\<open>py\<close>. On a stored notebook the format \<^verbatim>\<open>pdf\<close> is answered by
  \<^verbatim>\<open>{"error": "Export format 'pdf' not supported"}\<close>, and so is every format other than
  \<^verbatim>\<open>py\<close> and \<^verbatim>\<open>html\<close>, with the world unchanged: only \<^verbatim>\<open>py\<close> and \<^verbatim>\<open>html\<close> can
  write a file.
\<close>

theorem export_pdf_is_listed_but_unsupported:
  assumes "map_of (notebooks w) nid = Some nb" and "args ''notebook_id'' = Some nid"
  shows "(args ''format'' = Some ''pdf'' \<longrightarrow>
            export_notebook e args w
              = (Return (Error (''Export format '' @ sq @ ''pdf'' @ sq @ '' not supported'')), w))
       \<and> (\<forall>fmt. args ''format'' = Some fmt \<and> fmt \<noteq> ''py'' \<and> fmt \<noteq> ''html'' \<longrightarrow>
            export_notebook e args w
              = (Return (Error (''Export format '' @ sq @ fmt @ sq @ '' not supported'')), w))
       \<and> declared_enum ''export_notebook'' ''format'' = Some [''html'', ''pdf'', ''py'']"
  using assms by (simp add: export_notebook_def declared_enum_def tool_catalog_def)

theorem export_pdf_witness:
  "export_notebook demo_env [''notebook_id'' \<mapsto> demo_id, ''format'' \<mapsto> ''pdf''] demo_world
     = (Return (Error (''Export format '' @ sq @ ''pdf'' @ sq @ '' not supported'')), demo_world)"
  using export_pdf_is_listed_but_unsupported
    [of demo_world demo_id "\<lparr>nb_name = ''demo'', nb_path = ''/tmp/demo.ipynb'', cells = []\<rparr>"
        "[''notebook_id'' \<mapsto> demo_id, ''format'' \<mapsto> ''pdf'']" demo_env]
  by (simp add: demo_world_eq)

text \<open>
  C2, as amended. A child that exceeds its limit makes \<^verbatim>\<open>execute_cell\<close> (limit 30
  seconds) return the error \<^verbatim>\<open>Code execution timed out (30s limit)\<close> and
  \<^verbatim>\<open>install_package\<close> (limit 60 seconds) return the error
  \<^verbatim>\<open>Package installation timed out\<close>. Neither is a success response, and neither is the
  generic failure error of its handler (\<^verbatim>\<open>Execution failed: ...\<close>,
  \<^verbatim>\<open>Installation failed: ...\<close>).
\<close>

theorem timeout_errors:
  assumes "args ''code'' = Some src" and "tmpfile e = Inr p"
    and "launch_error (python e src) = None" and "30 < duration (python e src)"
    and "args' ''package'' = Some package"
    and "launch_error (pip e package) = None" and "60 < duration (pip e package)"
  shows "fst (execute_cell e args w) = Return (Error ''Code execution timed out (30s limit)'')
       \<and> fst (install_package e args' w) = Return (Error ''Package installation timed out'')
       \<and> (\<forall>t. fst (execute_cell e args w) \<noteq> Return (Content t)
              \<and> fst (install_package e args' w) \<noteq> Return (Content t))
       \<and> (\<forall>m. fst (execute_cell e args w) \<noteq> Return (Error (''Execution failed: '' @ m))
              \<and> fst (install_package e args' w) \<noteq> Return (Error (''Installation failed: '' @ m)))"
  using assms
  by (simp add: execute_cell_def install_package_def subprocess_run_def Let_def)

theorem timeout_errors_witness:
  "fst (execute_cell demo_env [''code'' \<mapsto> ''import time; time.sleep(61)''] demo_world)
     = Return (Error ''Code execution timed out (30s limit)'')
   \<and> fst (install_package demo_env [''package'' \<mapsto> ''tensorflow''] demo_world)
     = Return (Error ''Package installation timed out'')"
  using timeout_errors [of "[''code'' \<mapsto> ''import time; time.sleep(61)'']"
      "''import time; time.sleep(61)''" demo_env "''/tmp/tmpk3x9q2.py''"
      "[''package'' \<mapsto> ''tensorflow'']" "''tensorflow''" demo_world]
  by (simp add: demo_env_def slow_def)

text \<open>
  C2 as stated fails for \<^verbatim>\<open>install_package\<close>: a \<^verbatim>\<open>pip\<close> child still running after 61
  seconds is cut off by the 60 second limit, and the error returned is not
  \<^verbatim>\<open>Code execution timed out (60s limit)\<close>.
\<close>

theorem install_timeout_message_counterexample:
  "subprocess_run 60 (pip demo_env ''tensorflow'') = TimeoutExpired
   \<and> fst (install_package demo_env [''package'' \<mapsto> ''tensorflow''] demo_world)
       \<noteq> Return (Error ''Code execution timed out (60s limit)'')"
  by (simp add: install_package_def subprocess_run_def demo_env_def slow_def)

text \<open>
  The temporary file after an \<^verbatim>\<open>execute_cell\<close> call that created it and whose child ran
  into the limit: what the child left of it. Nothing in the call removes it.
\<close>

lemma execute_cell_temporary_file:
  assumes "args ''code'' = Some src" and "tmpfile e = Inr p"
    and "subprocess_run 30 (python e src) = TimeoutExpired"
  shows "files (snd (execute_cell e args w)) p = fs_effect (python e src) ((files w)(p \<mapsto> src)) p"
  using assms by (simp add: execute_cell_def Let_def)

text \<open>
  C1 claims that the temporary file is gone after every \<^verbatim>\<open>execute_cell\<close> call, also one
  that times out. In the code \<^verbatim>\<open>os.unlink\<close> follows \<^verbatim>\<open>subprocess.run\<close> inside the
  \<^verbatim>\<open>try\<close> block, and the handlers of \<^verbatim>\<open>TimeoutExpired\<close> and \<^verbatim>\<open>Exception\<close> do not
  delete anything. A script that sleeps 61 seconds: the file did not exist before the
  call, the call returns the timeout error, and the file is there afterwards, holding
  the script.
\<close>

theorem timeout_leaves_temporary_file:
  "tmpfile demo_env = Inr ''/tmp/tmpk3x9q2.py''
   \<and> files demo_world ''/tmp/tmpk3x9q2.py'' = None
   \<and> subprocess_run 30 (python demo_env ''import time; time.sleep(61)'') = TimeoutExpired
   \<and> fst (execute_cell demo_env [''code'' \<mapsto> ''import time; time.sleep(61)''] demo_world)
       = Return (Error ''Code execution timed out (30s limit)'')
   \<and> files (snd (execute_cell demo_env [''code'' \<mapsto> ''import time; time.sleep(61)''] demo_world))
        ''/tmp/tmpk3x9q2.py'' = Some ''import time; time.sleep(61)''"
  by (simp add: execute_cell_def subprocess_run_def demo_env_def slow_def demo_world_eq Let_def)


text \<open>
  C8, as amended. Take a \<^verbatim>\<open>tools/call\<close> of \<^verbatim>\<open>export_notebook\<close> whose
  \<^verbatim>\<open>notebook_id\<close> is no key of the session store. When it carries a \<^verbatim>\<open>format\<close> it is
  answered by exactly \<^verbatim>\<open>{"error": "Notebook <id> not found"}\<close>, with the identifier
  supplied. When it carries none it is answered by the text of the \<^verbatim>\<open>KeyError\<close>,
  \<^verbatim>\<open>{"error": "'format'"}\<close>: the handler reads both arguments before it looks the
  notebook up. Either way the world returned is the world given: no file is written and no
  notebook record changes.
\<close>

theorem export_unknown_notebook:
  assumes "args ''notebook_id'' = Some nid" and "map_of (notebooks w) nid = None"
  shows "(\<forall>fmt. args ''format'' = Some fmt \<longrightarrow>
            handle_request e
              (Request (Some ''tools/call'') (Params (Some ''export_notebook'') args)) w
            = (Error (''Notebook '' @ nid @ '' not found''), w))
       \<and> (args ''format'' = None \<longrightarrow>
            handle_request e
              (Request (Some ''tools/call'') (Params (Some ''export_notebook'') args)) w
            = (Error (sq @ ''format'' @ sq), w))"
  using assms by (simp add: dispatch_tool_def export_notebook_def)

theorem export_unknown_notebook_witness:
  "handle_request demo_env
     (Request (Some ''tools/call'')
        (Params (Some ''export_notebook'') [''notebook_id'' \<mapsto> ''nope'', ''format'' \<mapsto> ''py'']))
     demo_world
   = (Error ''Notebook nope not found'', demo_world)"
  using export_unknown_notebook [of "[''notebook_id'' \<mapsto> ''nope'', ''format'' \<mapsto> ''py'']"
      "''nope''" demo_world demo_env]
  by (simp add: demo_world_eq demo_id_def)

text \<open>
  C8 as stated fails for a call without \<^verbatim>\<open>format\<close>: the identifier \<^verbatim>\<open>nope\<close> is no key
  of the store, and the answer is not \<^verbatim>\<open>Notebook nope not found\<close> but \<^verbatim>\<open>'format'\<close>.
\<close>

theorem export_without_format_counterexample:
  "map_of (notebooks demo_world) ''nope'' = None
   \<and> handle_request demo_env
       (Request (Some ''tools/call'') (Params (Some ''export_notebook'') [''notebook_id'' \<mapsto> ''nope'']))
       demo_world
     = (Error (sq @ ''format'' @ sq), demo_world)
   \<and> Error (sq @ ''format'' @ sq) \<noteq> Error ''Notebook nope not found''"
  by (simp add: demo_world_eq demo_id_def dispatch_tool_def export_notebook_def sq_def)

subsection \<open>Sequences of calls\<close>

lemma execute_cell_step:
  assumes "map_of (notebooks w) nid = Some nb" and "nid \<noteq> []"
    and "args ''notebook_id'' = Some nid"
  shows "\<exists>new. map_of (notebooks (snd (execute_cell e args w))) nid
               = Some (nb\<lparr>cells := cells nb @ new\<rparr>)
           \<and> length new = (if is_success (fst (execute_cell e args w)) then 1 else 0)
           \<and> (\<forall>k < length new. execution_count (new ! k) = length (cells nb) + k + 1)"
proof (cases "is_success (fst (execute_cell e args w))")
  case True
  from execute_cell_success [OF True] obtain src out fs where
    r: "execute_cell e args w =
          (Return (Content (execution_text src out)),
           append_cell (args ''notebook_id'') src out (w\<lparr>files := fs\<rparr>))"
    by auto
  let ?c = "\<lparr>cell_code = src, cell_output = out, execution_count = length (cells nb) + 1\<rparr>"
  have "map_of (notebooks (snd (execute_cell e args w))) nid = Some (nb\<lparr>cells := cells nb @ [?c]\<rparr>)"
    using assms by (simp add: r append_cell_lookup)
  then show ?thesis using True by (intro exI [of _ "[?c]"]) simp
next
  case False
  then show ?thesis using assms by (intro exI [of _ "[]"]) (simp add: execute_cell_failure)
qed

lemma execute_cells_cells:
  assumes "map_of (notebooks w) nid = Some nb" and "nid \<noteq> []"
    and "\<forall>(e, args) \<in> set calls. args ''notebook_id'' = Some nid"
  shows "\<exists>new. map_of (notebooks (snd (execute_cells calls w))) nid
               = Some (nb\<lparr>cells := cells nb @ new\<rparr>)
           \<and> length new = length (filter is_success (fst (execute_cells calls w)))
           \<and> (\<forall>k < length new. execution_count (new ! k) = length (cells nb) + k + 1)"
  using assms
proof (induction calls arbitrary: w nb)
  case Nil
  then show ?case by (intro exI [of _ "[]"]) simp
next
  case (Cons c calls)
  obtain e args where c: "c = (e, args)" by (cases c)
  let ?w1 = "snd (execute_cell e args w)"
  from Cons.prems c have a: "args ''notebook_id'' = Some nid" by simp
  from execute_cell_step [where e = e and w = w and args = args and nid = nid and nb = nb]
    Cons.prems(1,2) a
  obtain new1 where n1: "map_of (notebooks ?w1) nid = Some (nb\<lparr>cells := cells nb @ new1\<rparr>)"
    "length new1 = (if is_success (fst (execute_cell e args w)) then 1 else 0)"
    "\<forall>k < length new1. execution_count (new1 ! k) = length (cells nb) + k + 1"
    by blast
  from Cons.prems(3) have rest: "\<forall>(e, args) \<in> set calls. args ''notebook_id'' = Some nid" by simp
  from Cons.IH [where w = ?w1 and nb = "nb\<lparr>cells := cells nb @ new1\<rparr>"] n1(1) Cons.prems(2) rest
  obtain new2 where n2:
    "map_of (notebooks (snd (execute_cells calls ?w1))) nid
       = Some (nb\<lparr>cells := (cells nb @ new1) @ new2\<rparr>)"
    "length new2 = length (filter is_success (fst (execute_cells calls ?w1)))"
    "\<forall>k < length new2. execution_count (new2 ! k) = length (cells nb @ new1) + k + 1"
    by auto
  have l: "map_of (notebooks (snd (execute_cells (c # calls) w))) nid
      = Some (nb\<lparr>cells := cells nb @ (new1 @ new2)\<rparr>)"
    using n2(1) by (simp add: c split_beta)
  have n: "length (new1 @ new2) = length (filter is_success (fst (execute_cells (c # calls) w)))"
    using n1(2) n2(2) by (simp add: c split_beta)
  have "execution_count ((new1 @ new2) ! k) = length (cells nb) + k + 1"
    if "k < length (new1 @ new2)" for k
  proof (cases "k < length new1")
    case True
    with n1(3) show ?thesis by (simp add: nth_append)
  next
    case False
    with that have "k - length new1 < length new2" by simp
    with n2(3) have "execution_count (new2 ! (k - length new1))
        = length (cells nb @ new1) + (k - length new1) + 1" by blast
    with False show ?thesis by (simp add: nth_append)
  qed
  with l n show ?case by blast
qed

lemma main_loop_responses:
  "length (fst (main_loop loads inputs w)) = length (takeWhile (\<lambda>(l, e). l \<noteq> []) inputs)"
proof (induction inputs arbitrary: w)
  case Nil
  then show ?case by simp
next
  case (Cons c inputs)
  obtain line e where c: "c = (line, e)" by (cases c)
  show ?case
    using Cons.IH by (simp add: c split_beta split: decoded.splits)
qed








lemma fst_execute_cells [simp]:
  "fst (execute_cells ((e, args) # calls) w)
     = fst (execute_cell e args w) # fst (execute_cells calls (snd (execute_cell e args w)))"
  by (simp add: split_beta)

lemma snd_execute_cells [simp]:
  "snd (execute_cells ((e, args) # calls) w)
     = snd (execute_cells calls (snd (execute_cell e args w)))"
  by (simp add: split_beta)

declare execute_cells.simps(2) [simp del]

lemma count_successes:
  "length (filter is_success rs) = length (filter (\<lambda>b. b) (map is_success rs))"
  by (induction rs) simp_all

text \<open>The responses of the example calls do not depend on the world.\<close>

lemma demo_success:
  "args ''code'' = Some ''print(1)'' \<Longrightarrow> is_success (fst (execute_cell demo_env args w))"
  "args ''code'' = Some ''print(2)'' \<Longrightarrow> is_success (fst (execute_cell demo_env args w))"
  by (simp_all add: execute_cell_def subprocess_run_def os_unlink_def demo_env_def quick_def Let_def)

lemma demo_timeout:
  "args ''code'' = Some ''import time; time.sleep(61)'' \<Longrightarrow>
   fst (execute_cell demo_env args w) = Return (Error ''Code execution timed out (30s limit)'')"
  by (simp add: execute_cell_def subprocess_run_def demo_env_def slow_def Let_def)

lemma demo_selfdel:
  "args ''code'' = Some ''import os; os.remove(__file__)'' \<Longrightarrow>
   fst (execute_cell demo_env args w)
     = Return (Error (''Execution failed: [Errno 2] No such file or directory: ''
                      @ sq @ ''/tmp/tmpk3x9q2.py'' @ sq))"
  by (simp add: execute_cell_def subprocess_run_def os_unlink_def demo_env_def selfdel_def Let_def)

lemma demo_responses:
  "map is_success (fst (execute_cells demo_calls w)) = [True, False, False, True]"
  by (simp add: demo_calls_def demo_success demo_timeout demo_selfdel)

lemma report_world_eq:
  "report_world =
     \<lparr>notebooks = [(report_id, \<lparr>nb_name = ''report.ipynb'', nb_path = ''/tmp/report.ipynb.ipynb'',
                     cells = [\<lparr>cell_code = ''print(1)'', cell_output = ''Output:'' @ nl @ ''1'' @ nl @ nl,
                               execution_count = 1\<rparr>]\<rparr>)],
      files = [''/tmp/report.ipynb.ipynb'' \<mapsto> notebook_json]\<rparr>"
  by (simp add: report_world_def report_env_def report_id_def demo_env_def quick_def
        create_notebook_def execute_cell_def subprocess_run_def os_unlink_def append_cell_def
        compose_output_def new_server_def os_path_join_def Let_def fun_upd_twist)

subsection \<open>The claims on the session store and on the loop\<close>

text \<open>
  C3, as amended. Take a notebook of the store and any sequence of \<^verbatim>\<open>execute_cell\<close>
  calls whose \<^verbatim>\<open>notebook_id\<close> is its identifier (not the empty string, which the test
  \<^verbatim>\<open>if notebook_id and ...\<close> never lets resolve). Afterwards the notebook is the same
  record with new cells behind the cells it had, as many as there were calls that returned
  a success response: a call that is answered by an error (timeout, launch failure, an
  exception raised after the child ended, a missing code) appends nothing. The new cell at
  position K, counted from 1, has \<^verbatim>\<open>execution_count\<close> equal to the number of cells it
  found plus K: for a notebook without cells, N cells when all N calls succeed and
  \<^verbatim>\<open>execution_count\<close> K for the Kth. And whatever single request the server handles, in
  whatever world, a stored notebook keeps its cells as an initial segment of its cells
  afterwards, so nothing is deleted, reordered or renumbered, except for the notebook whose
  identifier \<^verbatim>\<open>uuid4\<close> returns again during the request.
\<close>

theorem cells_count_and_numbering:
  assumes "map_of (notebooks w) nid = Some nb" and "nid \<noteq> []"
    and "\<forall>(e, args) \<in> set calls. args ''notebook_id'' = Some nid"
  shows "(\<exists>new. map_of (notebooks (snd (execute_cells calls w))) nid
                = Some (nb\<lparr>cells := cells nb @ new\<rparr>)
            \<and> length new = length (filter is_success (fst (execute_cells calls w)))
            \<and> (\<forall>k < length new. execution_count (new ! k) = length (cells nb) + k + 1))
       \<and> (\<forall>e r w0 i n. map_of (notebooks w0) i = Some n \<and> uuid4 e \<noteq> i \<longrightarrow>
            (\<exists>n'. map_of (notebooks (snd (handle_request e r w0))) i = Some n'
                  \<and> prefix (cells n) (cells n')))"
    (is "?counted \<and> ?kept")
proof
  show ?counted using assms by (rule execute_cells_cells)
next
  show ?kept
  proof (intro allI impI)
    fix e :: env and r and w0 :: world and i n
    assume h: "map_of (notebooks w0) i = Some n \<and> uuid4 e \<noteq> i"
    from handle_request_keeps [of w0 i n e r] h
    show "\<exists>n'. map_of (notebooks (snd (handle_request e r w0))) i = Some n'
        \<and> prefix (cells n) (cells n')"
      by blast
  qed
qed

theorem cells_count_and_numbering_witness:
  "(\<exists>new. map_of (notebooks (snd (execute_cells demo_calls demo_world))) demo_id
            = Some \<lparr>nb_name = ''demo'', nb_path = ''/tmp/demo.ipynb'', cells = new\<rparr>
        \<and> length new = 2 \<and> execution_count (new ! 0) = 1 \<and> execution_count (new ! 1) = 2)
   \<and> (\<exists>n'. map_of (notebooks (snd (handle_request demo_env
               (Request (Some ''tools/call'')
                  (Params (Some ''execute_cell'')
                     [''code'' \<mapsto> ''print(2)'', ''notebook_id'' \<mapsto> report_id]))
               report_world))) report_id = Some n'
          \<and> prefix [\<lparr>cell_code = ''print(1)'', cell_output = ''Output:'' @ nl @ ''1'' @ nl @ nl,
                      execution_count = 1\<rparr>] (cells n'))"
proof -
  have h: "\<forall>(e, args) \<in> set demo_calls. args ''notebook_id'' = Some demo_id"
    by (simp add: demo_calls_def)
  have d: "demo_id \<noteq> []" by (simp add: demo_id_def)
  have l: "map_of (notebooks demo_world) demo_id
      = Some \<lparr>nb_name = ''demo'', nb_path = ''/tmp/demo.ipynb'', cells = []\<rparr>"
    by (simp add: demo_world_eq)
  have n: "length (filter is_success (fst (execute_cells demo_calls demo_world))) = 2"
    by (simp add: count_successes demo_responses)
  have u: "uuid4 demo_env \<noteq> report_id" by (simp add: demo_env_def report_id_def)
  have r: "map_of (notebooks report_world) report_id
      = Some \<lparr>nb_name = ''report.ipynb'', nb_path = ''/tmp/report.ipynb.ipynb'',
              cells = [\<lparr>cell_code = ''print(1)'', cell_output = ''Output:'' @ nl @ ''1'' @ nl @ nl,
                        execution_count = 1\<rparr>]\<rparr>"
    by (simp add: report_world_eq)
  note t = cells_count_and_numbering [OF l d h]
  from t obtain new where
    "map_of (notebooks (snd (execute_cells demo_calls demo_world))) demo_id
       = Some \<lparr>nb_name = ''demo'', nb_path = ''/tmp/demo.ipynb'', cells = new\<rparr>"
    "length new = length (filter is_success (fst (execute_cells demo_calls demo_world)))"
    "\<forall>k < length new. execution_count (new ! k) = k + 1"
    by auto
  with n have first: "\<exists>new. map_of (notebooks (snd (execute_cells demo_calls demo_world))) demo_id
            = Some \<lparr>nb_name = ''demo'', nb_path = ''/tmp/demo.ipynb'', cells = new\<rparr>
        \<and> length new = 2 \<and> execution_count (new ! 0) = 1 \<and> execution_count (new ! 1) = 2"
    by auto
  from t r u have "\<exists>n'. map_of (notebooks (snd (handle_request demo_env
               (Request (Some ''tools/call'')
                  (Params (Some ''execute_cell'')
                     [''code'' \<mapsto> ''print(2)'', ''notebook_id'' \<mapsto> report_id]))
               report_world))) report_id = Some n'
          \<and> prefix (cells \<lparr>nb_name = ''report.ipynb'', nb_path = ''/tmp/report.ipynb.ipynb'',
              cells = [\<lparr>cell_code = ''print(1)'', cell_output = ''Output:'' @ nl @ ''1'' @ nl @ nl,
                        execution_count = 1\<rparr>]\<rparr>) (cells n')"
    by blast
  with first show ?thesis by simp
qed

text \<open>
  C3 as stated fails in two places. A call that times out appends nothing: one
  \<^verbatim>\<open>execute_cell\<close> call on the example notebook with a script that sleeps 61 seconds is
  answered by the timeout error and the notebook still has no cell. And
  \<^verbatim>\<open>create_notebook\<close> stores its record without looking whether the identifier is in
  use: when \<^verbatim>\<open>uuid4\<close> returns the identifier of the report notebook again, that notebook
  is replaced by a new one and its cell is gone.
\<close>

theorem cells_counterexample:
  "fst (execute_cells
         [(demo_env, [''code'' \<mapsto> ''import time; time.sleep(61)'', ''notebook_id'' \<mapsto> demo_id])]
         demo_world)
     = [Return (Error ''Code execution timed out (30s limit)'')]
   \<and> map_of (notebooks (snd (execute_cells
         [(demo_env, [''code'' \<mapsto> ''import time; time.sleep(61)'', ''notebook_id'' \<mapsto> demo_id])]
         demo_world))) demo_id
     = Some \<lparr>nb_name = ''demo'', nb_path = ''/tmp/demo.ipynb'', cells = []\<rparr>
   \<and> map_of (notebooks report_world) report_id
     = Some \<lparr>nb_name = ''report.ipynb'', nb_path = ''/tmp/report.ipynb.ipynb'',
             cells = [\<lparr>cell_code = ''print(1)'', cell_output = ''Output:'' @ nl @ ''1'' @ nl @ nl,
                       execution_count = 1\<rparr>]\<rparr>
   \<and> uuid4 report_env = report_id
   \<and> map_of (notebooks (snd (handle_request report_env
         (Request (Some ''tools/call'') (Params (Some ''create_notebook'') [''name'' \<mapsto> ''again'']))
         report_world))) report_id
     = Some \<lparr>nb_name = ''again'', nb_path = ''/tmp/again.ipynb'', cells = []\<rparr>"
proof -
  let ?args = "[''code'' \<mapsto> ''import time; time.sleep(61)'', ''notebook_id'' \<mapsto> demo_id]"
  have t: "fst (execute_cell demo_env ?args demo_world)
      = Return (Error ''Code execution timed out (30s limit)'')"
    by (simp add: demo_timeout)
  then have "\<not> is_success (fst (execute_cell demo_env ?args demo_world))"
    by simp
  then have "notebooks (snd (execute_cell demo_env ?args demo_world)) = notebooks demo_world"
    by (rule execute_cell_failure)
  then have c1: "map_of (notebooks (snd (execute_cells [(demo_env, ?args)] demo_world))) demo_id
      = Some \<lparr>nb_name = ''demo'', nb_path = ''/tmp/demo.ipynb'', cells = []\<rparr>"
    by (simp add: demo_world_eq)
  have c0: "fst (execute_cells [(demo_env, ?args)] demo_world)
      = [Return (Error ''Code execution timed out (30s limit)'')]"
    using t by simp
  have c2: "map_of (notebooks report_world) report_id
     = Some \<lparr>nb_name = ''report.ipynb'', nb_path = ''/tmp/report.ipynb.ipynb'',
             cells = [\<lparr>cell_code = ''print(1)'', cell_output = ''Output:'' @ nl @ ''1'' @ nl @ nl,
                       execution_count = 1\<rparr>]\<rparr>"
    by (simp add: report_world_eq)
  have c3: "uuid4 report_env = report_id"
    by (simp add: report_env_def report_id_def)
  have c4: "map_of (notebooks (snd (handle_request report_env
         (Request (Some ''tools/call'') (Params (Some ''create_notebook'') [''name'' \<mapsto> ''again'']))
         report_world))) report_id
     = Some \<lparr>nb_name = ''again'', nb_path = ''/tmp/again.ipynb'', cells = []\<rparr>"
    by (simp add: snd_handle_request dispatch_tool_def create_notebook_def report_env_def
          demo_env_def report_id_def report_world_eq os_path_join_def Let_def)
  from c0 c1 c2 c3 c4 show ?thesis by (intro conjI)
qed





lemma deep_line_differs: "length s \<noteq> 1200 \<Longrightarrow> deep_line \<noteq> s"
  by (auto simp: deep_line_def)

text \<open>
  C4, as amended. A line that is not empty and on which \<^verbatim>\<open>json.loads\<close> raises
  \<^verbatim>\<open>JSONDecodeError\<close> is answered by the one response \<^verbatim>\<open>{"error": "Invalid JSON"}\<close>,
  the world stays as it was and the loop goes on with the next line. A line on which
  \<^verbatim>\<open>json.loads\<close> raises another exception, and a line that is JSON but no object, are
  answered by one error response with the text of the exception, and the loop goes on in
  the same way. Every line that is not empty gets exactly one response and the loop goes on
  after it, whatever the handler did; the number of responses is the number of lines before
  the first empty line.
\<close>

theorem invalid_json_line:
  assumes "line \<noteq> []"
  shows "(loads line = JSONDecodeError \<longrightarrow>
            main_loop loads ((line, e) # rest) w
              = (Error ''Invalid JSON'' # fst (main_loop loads rest w), snd (main_loop loads rest w)))
       \<and> (\<forall>m. loads line = OtherError m \<longrightarrow>
            main_loop loads ((line, e) # rest) w
              = (Error m # fst (main_loop loads rest w), snd (main_loop loads rest w)))
       \<and> (\<forall>t. loads line = Decoded (RequestNotDict t) \<longrightarrow>
            main_loop loads ((line, e) # rest) w
              = (Error (sq @ type_name t @ sq @ '' object has no attribute '' @ sq @ ''get'' @ sq)
                   # fst (main_loop loads rest w), snd (main_loop loads rest w)))
       \<and> (\<exists>r w1. main_loop loads ((line, e) # rest) w
              = (r # fst (main_loop loads rest w1), snd (main_loop loads rest w1)))
       \<and> (\<forall>inputs. length (fst (main_loop loads inputs w))
              = length (takeWhile (\<lambda>(l, e). l \<noteq> []) inputs))"
  using assms by (auto simp: split_beta main_loop_responses split: decoded.splits)

theorem invalid_json_line_witness:
  \<open>main_loop demo_loads [(''not-json'', demo_env), (''{"method": "tools/list"}'', demo_env)] demo_world
     = ([Error ''Invalid JSON'', Tools tool_catalog], demo_world)\<close>
proof -
  have "deep_line \<noteq> ''not-json''" by (rule deep_line_differs) simp
  then have "demo_loads ''not-json'' = JSONDecodeError" by (auto simp: demo_loads_def)
  with invalid_json_line [of "''not-json''" demo_loads demo_env
      \<open>[(''{"method": "tools/list"}'', demo_env)]\<close> demo_world]
  show ?thesis by (simp add: demo_loads_def list_tools_def)
qed

text \<open>
  C4 as stated fails on three lines. The empty line: \<^verbatim>\<open>json.loads\<close> would reject it, but
  the loop tests \<^verbatim>\<open>if not line: break\<close> first and ends without a response; the valid
  request on the next line is never read. The line \<^verbatim>\<open>7\<close>: it is JSON and no object, and
  the answer is the text of the \<^verbatim>\<open>AttributeError\<close>. A line of 1200 opening brackets:
  \<^verbatim>\<open>json.loads\<close> raises \<^verbatim>\<open>RecursionError\<close>, which is no \<^verbatim>\<open>JSONDecodeError\<close>, and the
  answer is the text of that exception.
\<close>

theorem not_invalid_json_counterexample:
  \<open>demo_loads [] = JSONDecodeError
   \<and> main_loop demo_loads [([], demo_env), (''{"method": "tools/list"}'', demo_env)] demo_world
       = ([], demo_world)
   \<and> main_loop demo_loads [(''7'', demo_env)] demo_world
       = ([Error (sq @ ''int'' @ sq @ '' object has no attribute '' @ sq @ ''get'' @ sq)], demo_world)
   \<and> main_loop demo_loads [(deep_line, demo_env)] demo_world
       = ([Error ''maximum recursion depth exceeded while decoding a JSON array from a unicode string''],
          demo_world)\<close>
proof -
  have n: "deep_line \<noteq> []" \<open>deep_line \<noteq> ''7''\<close> \<open>deep_line \<noteq> ''{"method": "tools/list"}''\<close>
    by (rule deep_line_differs, simp)+
  have a: "demo_loads [] = JSONDecodeError" using n by (auto simp: demo_loads_def)
  have b: "demo_loads ''7'' = Decoded (RequestNotDict PyInt)" by (simp add: demo_loads_def)
  have c: "demo_loads deep_line
      = OtherError ''maximum recursion depth exceeded while decoding a JSON array from a unicode string''"
    using n by (simp add: demo_loads_def)
  show ?thesis using n(1) by (simp add: a b c)
qed




subsection \<open>Exporting a notebook\<close>

text \<open>
  What the two exporters write when the file can be opened. With the cells numbered as
  \<^verbatim>\<open>execute_cell\<close> numbers them, the index of \<^verbatim>\<open>enumerate\<close> is the cell's
  \<^verbatim>\<open>execution_count\<close>: the script is the header and, cell by cell in their order, the
  comment \<^verbatim>\<open># Cell i\<close> and the code; the document holds, cell by cell, the code and the
  output. When \<^verbatim>\<open>.ipynb\<close> occurs in the stored path at its end only, the path written
  is the stored path with that extension replaced.
\<close>

lemma replace_from_end:
  assumes "old \<noteq> []"
    and "\<forall>k < length base. take (length old) (drop k (base @ old)) \<noteq> old"
  shows "replace_from old new (base @ old) = base @ new"
  using assms(2)
proof (induction base)
  case Nil
  show ?case using assms(1) by (simp add: replace_from.simps [of old new old] replace_from.simps [of old new "[]"])
next
  case (Cons c base)
  from Cons.prems have "take (length old) (drop 0 ((c # base) @ old)) \<noteq> old" by blast
  then have no: "take (length old) (c # base @ old) \<noteq> old" by simp
  have "\<forall>k < length base. take (length old) (drop k (base @ old)) \<noteq> old"
  proof (intro allI impI)
    fix k assume "k < length base"
    then have "Suc k < length (c # base)" by simp
    with Cons.prems have "take (length old) (drop (Suc k) ((c # base) @ old)) \<noteq> old" by blast
    then show "take (length old) (drop k (base @ old)) \<noteq> old" by simp
  qed
  from Cons.IH [OF this] no assms(1) show ?case
    by (simp add: replace_from.simps [of old new "c # base @ old"])
qed

lemma extension_replaced:
  assumes "old \<noteq> []"
    and "\<forall>k < length base. take (length old) (drop k (base @ old)) \<noteq> old"
  shows "str_replace (base @ old) old new = base @ new"
  using assms by (simp add: str_replace_def replace_from_end)

lemma enumerate1_numbered:
  "numbered cs \<Longrightarrow> enumerate1 cs = map (\<lambda>c. (execution_count c, c)) cs"
proof -
  assume "numbered cs"
  then have "[1 ..< Suc (length cs)] = map execution_count cs" by (simp add: numbered_def)
  then have "enumerate1 cs = zip (map execution_count cs) cs" by (simp add: enumerate1_def)
  also have "\<dots> = map (\<lambda>c. (execution_count c, c)) cs"
    by (induction cs) simp_all
  finally show ?thesis .
qed

lemma export_py_writes:
  assumes "map_of (notebooks w) nid = Some nb" and "args ''notebook_id'' = Some nid"
    and "args ''format'' = Some ''py''" and "open_error e = None"
  shows "export_notebook e args w =
           (Return (Content (''Notebook exported to Python script: ''
                             @ str_replace (nb_path nb) ''.ipynb'' ''.py'')),
            w\<lparr>files := (files w)(str_replace (nb_path nb) ''.ipynb'' ''.py'' \<mapsto> py_content nb)\<rparr>)"
  using assms by (simp add: export_notebook_def write_export_def)

lemma export_html_writes:
  assumes "map_of (notebooks w) nid = Some nb" and "args ''notebook_id'' = Some nid"
    and "args ''format'' = Some ''html''" and "open_error e = None"
  shows "export_notebook e args w =
           (Return (Content (''Notebook exported to HTML: ''
                             @ str_replace (nb_path nb) ''.ipynb'' ''.html'')),
            w\<lparr>files := (files w)(str_replace (nb_path nb) ''.ipynb'' ''.html'' \<mapsto> html_content nb)\<rparr>)"
  using assms by (simp add: export_notebook_def write_export_def)

lemma py_content_numbered:
  assumes "numbered (cells nb)"
  shows "py_content nb =
           ''# '' @ nb_name nb @ nl @ ''# Exported from Jupyter notebook'' @ nl @ nl
           @ concat (map (\<lambda>c. ''# Cell '' @ str_nat (execution_count c) @ nl @ cell_code c @ nl @ nl)
                       (cells nb))"
  using assms by (simp add: py_content_def enumerate1_numbered py_cell_def comp_def)

lemma html_content_numbered:
  assumes "numbered (cells nb)"
  shows "\<exists>before after.
           html_content nb =
             html_head (nb_name nb)
             @ concat (map (\<lambda>c. before c @ cell_code c @ ''</pre></div>'' @ nl
                                 @ ''        <div class='' @ [CHR 0x22] @ ''output'' @ [CHR 0x22]
                                 @ ''><pre>'' @ cell_output c @ after) (cells nb))
             @ ''</body></html>''"
  using assms
  by (intro exI [of _ "\<lambda>c. nl @ ''    <div class='' @ [CHR 0x22] @ ''cell'' @ [CHR 0x22] @ ''>'' @ nl
                        @ ''        <h3>Cell '' @ str_nat (execution_count c) @ ''</h3>'' @ nl
                        @ ''        <div class='' @ [CHR 0x22] @ ''code'' @ [CHR 0x22] @ ''><pre>''"]
            exI [of _ "''</pre></div>'' @ nl @ ''    </div>'' @ nl"])
     (simp add: html_content_def enumerate1_numbered html_cell_def comp_def text_lines_def)

lemma export_py_extension:
  assumes "map_of (notebooks w) nid = Some nb" and "args ''notebook_id'' = Some nid"
    and "args ''format'' = Some ''py''" and "open_error e = None"
    and "nb_path nb = base @ ''.ipynb''"
    and "\<forall>k < length base. take (length ''.ipynb'') (drop k (base @ ''.ipynb'')) \<noteq> ''.ipynb''"
  shows "files (snd (export_notebook e args w)) (base @ ''.py'') = Some (py_content nb)"
proof -
  have "str_replace (nb_path nb) ''.ipynb'' ''.py'' = base @ ''.py''"
    unfolding assms(5) using assms(6) by (intro extension_replaced) simp_all
  with export_py_writes [OF assms(1-4)] show ?thesis by simp
qed


lemma replace_report: "str_replace ''/tmp/report.ipynb.ipynb'' ''.ipynb'' ''.py'' = ''/tmp/report.py.py''"
  by (simp add: str_replace_def replace_from.simps)

text \<open>
  C5 says that the script is written to the stored path with its \<^verbatim>\<open>.ipynb\<close> extension
  replaced by \<^verbatim>\<open>.py\<close>. The code calls \<^verbatim>\<open>notebook["path"].replace(".ipynb", ".py")\<close>,
  which rewrites every occurrence. A notebook created with the name \<^verbatim>\<open>report.ipynb\<close> is
  stored at \<^verbatim>\<open>/tmp/report.ipynb.ipynb\<close>; its export does not write
  \<^verbatim>\<open>/tmp/report.ipynb.py\<close> but \<^verbatim>\<open>/tmp/report.py.py\<close> (with the content the claim
  describes).
\<close>

theorem export_path_replaces_every_ipynb:
  "map_of (notebooks report_world) report_id
     = Some \<lparr>nb_name = ''report.ipynb'', nb_path = ''/tmp/report.ipynb.ipynb'',
             cells = [\<lparr>cell_code = ''print(1)'', cell_output = ''Output:'' @ nl @ ''1'' @ nl @ nl,
                       execution_count = 1\<rparr>]\<rparr>
   \<and> fst (export_notebook report_env [''notebook_id'' \<mapsto> report_id, ''format'' \<mapsto> ''py''] report_world)
       = Return (Content ''Notebook exported to Python script: /tmp/report.py.py'')
   \<and> files (snd (export_notebook report_env [''notebook_id'' \<mapsto> report_id, ''format'' \<mapsto> ''py'']
                    report_world)) ''/tmp/report.ipynb.py'' = None
   \<and> files (snd (export_notebook report_env [''notebook_id'' \<mapsto> report_id, ''format'' \<mapsto> ''py'']
                    report_world)) ''/tmp/report.py.py''
       = Some (''# report.ipynb'' @ nl @ ''# Exported from Jupyter notebook'' @ nl @ nl
               @ ''# Cell 1'' @ nl @ ''print(1)'' @ nl @ nl)"
proof -
  have e: "open_error report_env = None" by (simp add: report_env_def demo_env_def)
  have l: "map_of (notebooks report_world) report_id
     = Some \<lparr>nb_name = ''report.ipynb'', nb_path = ''/tmp/report.ipynb.ipynb'',
             cells = [\<lparr>cell_code = ''print(1)'', cell_output = ''Output:'' @ nl @ ''1'' @ nl @ nl,
                       execution_count = 1\<rparr>]\<rparr>"
    by (simp add: report_world_eq)
  have c: "py_content \<lparr>nb_name = ''report.ipynb'', nb_path = ''/tmp/report.ipynb.ipynb'',
             cells = [\<lparr>cell_code = ''print(1)'', cell_output = ''Output:'' @ nl @ ''1'' @ nl @ nl,
                       execution_count = 1\<rparr>]\<rparr>
      = ''# report.ipynb'' @ nl @ ''# Exported from Jupyter notebook'' @ nl @ nl
               @ ''# Cell 1'' @ nl @ ''print(1)'' @ nl @ nl"
    by (simp add: py_content_def enumerate1_def py_cell_def str_nat.simps digit_char_def)
  from export_py_writes [OF l _ _ e, of "[''notebook_id'' \<mapsto> report_id, ''format'' \<mapsto> ''py'']"]
  have "export_notebook report_env [''notebook_id'' \<mapsto> report_id, ''format'' \<mapsto> ''py''] report_world
      = (Return (Content (''Notebook exported to Python script: '' @ ''/tmp/report.py.py'')),
         report_world\<lparr>files := (files report_world)(''/tmp/report.py.py'' \<mapsto>
            ''# report.ipynb'' @ nl @ ''# Exported from Jupyter notebook'' @ nl @ nl
               @ ''# Cell 1'' @ nl @ ''print(1)'' @ nl @ nl)\<rparr>)"
    by (simp add: replace_report c [simplified])
  then show ?thesis using l by (simp add: report_world_eq)
qed

end
